theory Spec2Isabelle
  imports Main "HOL-Library.Word" "HOL-Library.Sublist"
begin

section \<open>Shared types\<close>

text \<open>
  Go's \<^verbatim>\<open>uint64\<close> is a 64-bit word: \<open>+\<close> wraps, \<open>\<le>\<close> and \<open><\<close> compare unsigned.
  An \<^verbatim>\<open>int64\<close> field is held as the same 64 bits (the conversions \<^verbatim>\<open>int64(x)\<close> and
  \<^verbatim>\<open>uint64(x)\<close> keep the bits). A \<^verbatim>\<open>[]byte\<close> is a list of bytes; a \<^verbatim>\<open>nil\<close> slice and an
  empty one are equal for \<^verbatim>\<open>bytes.Compare\<close> and are both \<open>[]\<close>.
\<close>

type_synonym u64 = "64 word"
type_synonym bytes = "char list"

text \<open>
  Go errors as values. \<open>Errorf\<close> is an error made by \<^verbatim>\<open>fmt.Errorf\<close> or \<^verbatim>\<open>errors.New\<close>
  with no wrapped cause, \<open>Wrapf prefix err\<close> is \<^verbatim>\<open>fmt.Errorf(prefix + "%w", err)\<close>,
  \<open>StatusError\<close> is gRPC's \<^verbatim>\<open>status.Error(code, msg)\<close>, \<open>ErrInvalidArg\<close> is
  \<^verbatim>\<open>stream.NewErrInvalidArg(msg)\<close>, and the last two are the sentinels of package
  \<^verbatim>\<open>context\<close>.
\<close>

datatype Code = Canceled | InvalidArgument | DeadlineExceeded | Unavailable | Internal

datatype error =
    Errorf string
  | Wrapf string error
  | StatusError Code string
  | ErrInvalidArg string
  | context_Canceled
  | context_DeadlineExceeded

fun Code_String :: "Code \<Rightarrow> string" where
  "Code_String Canceled = ''Canceled''"
| "Code_String InvalidArgument = ''InvalidArgument''"
| "Code_String DeadlineExceeded = ''DeadlineExceeded''"
| "Code_String Unavailable = ''Unavailable''"
| "Code_String Internal = ''Internal''"

text \<open>The \<^verbatim>\<open>Error()\<close> method: the message an error prints.\<close>

fun Error :: "error \<Rightarrow> string" where
  "Error (Errorf msg) = msg"
| "Error (Wrapf pre err) = pre @ Error err"
| "Error (StatusError c msg) = ''rpc error: code = '' @ Code_String c @ '' desc = '' @ msg"
| "Error (ErrInvalidArg msg) = msg"
| "Error context_Canceled = ''context canceled''"
| "Error context_DeadlineExceeded = ''context deadline exceeded''"

text \<open>
  \<^verbatim>\<open>errors.Is(err, target)\<close> walks the chain of wrapped causes and compares each link with
  the target; \<^verbatim>\<open>errors.As(err, &errInvalidArg)\<close> walks the same chain for a link of type
  \<^verbatim>\<open>*stream.ErrInvalidArg\<close>. A gRPC status error wraps nothing and is of neither kind.
\<close>

fun errors_Is :: "error \<Rightarrow> error \<Rightarrow> bool" where
  "errors_Is (Wrapf pre err) target = (Wrapf pre err = target \<or> errors_Is err target)"
| "errors_Is err target = (err = target)"

fun errors_As_ErrInvalidArg :: "error \<Rightarrow> error option" where
  "errors_As_ErrInvalidArg (ErrInvalidArg msg) = Some (ErrInvalidArg msg)"
| "errors_As_ErrInvalidArg (Wrapf pre err) = errors_As_ErrInvalidArg err"
| "errors_As_ErrInvalidArg err = None"


section \<open>The store: \<^verbatim>\<open>state/value_set.go\<close>\<close>

text \<open>
  A panic is a value: every function that can panic returns \<open>panic + result\<close>.
\<close>

datatype panic = Panic string

datatype StoreDelta_Operation = StoreDelta_CREATE | StoreDelta_UPDATE | StoreDelta_DELETE

record StoreDelta =
  Operation :: StoreDelta_Operation
  Ordinal :: u64
  Key :: string
  OldValue :: bytes
  NewValue :: bytes

text \<open>
  \<^verbatim>\<open>value_set.go\<close> reads and writes the store through \<^verbatim>\<open>s.Deltas\<close>, \<^verbatim>\<open>s.GetLast\<close>,
  \<^verbatim>\<open>s.ApplyDelta\<close> and \<^verbatim>\<open>s.bumpOrdinal\<close>. The struct is declared in another file of the
  package; the record holds the delta list the file appends to and the key to value
  mapping of the data model, and it is extensible, the extension standing for the
  struct's other fields.
\<close>

record Store =
  kv :: "string \<rightharpoonup> bytes"
  Deltas :: "StoreDelta list"

text \<open>
  Modelled from the spec: \<^verbatim>\<open>GetLast\<close> is declared in a file that is not among the sources; the spec has
  ``\<^verbatim>\<open>GetLast(key)\<close>: current value'', found or not.
\<close>

definition GetLast :: "'z Store_scheme \<Rightarrow> string \<Rightarrow> bytes option" where
  "GetLast s key = kv s key"

text \<open>
  Modelled from the spec: \<^verbatim>\<open>ApplyDelta\<close> is declared in a file that is not among the sources; the spec has
  deltas \<open>(op, ordinal, key, old, new)\<close> whose application to the state before yields the
  state after: a create or an update binds the key to the new value, a delete removes
  the key.
\<close>

definition ApplyDelta :: "StoreDelta \<Rightarrow> 'z Store_scheme \<Rightarrow> 'z Store_scheme" where
  "ApplyDelta delta s =
     (case Operation delta of
        StoreDelta_CREATE \<Rightarrow> s\<lparr>kv := (kv s)(Key delta \<mapsto> NewValue delta)\<rparr>
      | StoreDelta_UPDATE \<Rightarrow> s\<lparr>kv := (kv s)(Key delta \<mapsto> NewValue delta)\<rparr>
      | StoreDelta_DELETE \<Rightarrow> s\<lparr>kv := (kv s)(Key delta := None)\<rparr>)"

text \<open>
  \<^verbatim>\<open>func (s *Store) set(ord uint64, key string, value []byte)\<close>.
  \<^verbatim>\<open>bumpOrdinal\<close> is declared in a file that is not among the sources and is a parameter: it takes the
  ordinal and the store and either panics or returns the store it leaves behind. The
  order is the source's: the reserved-prefix check, \<^verbatim>\<open>bumpOrdinal\<close>, \<^verbatim>\<open>GetLast\<close>, the
  byte comparison, then the delta.
\<close>

definition set_kv ::
  "(u64 \<Rightarrow> 'z Store_scheme \<Rightarrow> panic + 'z Store_scheme) \<Rightarrow>
   u64 \<Rightarrow> string \<Rightarrow> bytes \<Rightarrow> 'z Store_scheme \<Rightarrow> panic + 'z Store_scheme" where
  "set_kv bumpOrdinal ord key val s =
     (if prefix ''__!__'' key
      then Inl (Panic ''key prefix __!__ is reserved for internal system use.'')
      else
        case bumpOrdinal ord s of
          Inl p \<Rightarrow> Inl p
        | Inr s1 \<Rightarrow>
            (case GetLast s1 key of
               Some old \<Rightarrow>
                 if val = old then Inr s1
                 else
                   let delta = \<lparr>Operation = StoreDelta_UPDATE, Ordinal = ord, Key = key,
                                 OldValue = old, NewValue = val\<rparr>;
                       s2 = ApplyDelta delta s1
                   in Inr (s2\<lparr>Deltas := Deltas s2 @ [delta]\<rparr>)
             | None \<Rightarrow>
                 let delta = \<lparr>Operation = StoreDelta_CREATE, Ordinal = ord, Key = key,
                               OldValue = [], NewValue = val\<rparr>;
                     s2 = ApplyDelta delta s1
                 in Inr (s2\<lparr>Deltas := Deltas s2 @ [delta]\<rparr>)))"

text \<open>
  The public \<^verbatim>\<open>Set\<close> (a string value) and \<^verbatim>\<open>SetBytes\<close>: both call \<^verbatim>\<open>set\<close>; the
  conversion \<^verbatim>\<open>[]byte(value)\<close> keeps the bytes. In the source the body of \<^verbatim>\<open>SetBytes\<close> has
  a dangling \<^verbatim>\<open>bytes.\<close> after the call, which is no statement; the call is all it does.
\<close>

definition SetBytes ::
  "(u64 \<Rightarrow> 'z Store_scheme \<Rightarrow> panic + 'z Store_scheme) \<Rightarrow>
   u64 \<Rightarrow> string \<Rightarrow> bytes \<Rightarrow> 'z Store_scheme \<Rightarrow> panic + 'z Store_scheme" where
  "SetBytes bumpOrdinal ord key val s = set_kv bumpOrdinal ord key val s"

definition Set_string ::
  "(u64 \<Rightarrow> 'z Store_scheme \<Rightarrow> panic + 'z Store_scheme) \<Rightarrow>
   u64 \<Rightarrow> string \<Rightarrow> string \<Rightarrow> 'z Store_scheme \<Rightarrow> panic + 'z Store_scheme" where
  "Set_string bumpOrdinal ord key val s = set_kv bumpOrdinal ord key val s"

text \<open>
  \<^verbatim>\<open>func (s *Store) setIfNotExists(ord uint64, key string, value []byte)\<close>: it starts
  with \<^verbatim>\<open>bumpOrdinal\<close>; there is no reserved-prefix check in its body.
\<close>

definition setIfNotExists ::
  "(u64 \<Rightarrow> 'z Store_scheme \<Rightarrow> panic + 'z Store_scheme) \<Rightarrow>
   u64 \<Rightarrow> string \<Rightarrow> bytes \<Rightarrow> 'z Store_scheme \<Rightarrow> panic + 'z Store_scheme" where
  "setIfNotExists bumpOrdinal ord key val s =
     (case bumpOrdinal ord s of
        Inl p \<Rightarrow> Inl p
      | Inr s1 \<Rightarrow>
          (case GetLast s1 key of
             Some old \<Rightarrow> Inr s1
           | None \<Rightarrow>
               let delta = \<lparr>Operation = StoreDelta_CREATE, Ordinal = ord, Key = key,
                             OldValue = [], NewValue = val\<rparr>;
                   s2 = ApplyDelta delta s1
               in Inr (s2\<lparr>Deltas := Deltas s2 @ [delta]\<rparr>)))"

definition SetBytesIfNotExists ::
  "(u64 \<Rightarrow> 'z Store_scheme \<Rightarrow> panic + 'z Store_scheme) \<Rightarrow>
   u64 \<Rightarrow> string \<Rightarrow> bytes \<Rightarrow> 'z Store_scheme \<Rightarrow> panic + 'z Store_scheme" where
  "SetBytesIfNotExists bumpOrdinal ord key val s = setIfNotExists bumpOrdinal ord key val s"

definition SetIfNotExists ::
  "(u64 \<Rightarrow> 'z Store_scheme \<Rightarrow> panic + 'z Store_scheme) \<Rightarrow>
   u64 \<Rightarrow> string \<Rightarrow> string \<Rightarrow> 'z Store_scheme \<Rightarrow> panic + 'z Store_scheme" where
  "SetIfNotExists bumpOrdinal ord key val s = setIfNotExists bumpOrdinal ord key val s"


section \<open>Requests\<close>

text \<open>
  The fields of \<^verbatim>\<open>pbsubstreams.Request\<close> that the sources read or write.
  \<^verbatim>\<open>StartBlockNum\<close> is an \<^verbatim>\<open>int64\<close>, \<^verbatim>\<open>StopBlockNum\<close> a \<^verbatim>\<open>uint64\<close>. The message type is
  generated code that is not among the sources; a manifest is kept as the list of its module
  names.
\<close>

datatype ForkStep = STEP_UNKNOWN | STEP_NEW | STEP_UNDO | STEP_IRREVERSIBLE

datatype Manifest = Modules "string list"

record Request =
  StartBlockNum :: "64 word"
  StartCursor :: string
  StopBlockNum :: u64
  ForkSteps :: "ForkStep list"
  IrreversibilityCondition :: string
  Manifest :: Manifest
  OutputModules :: "string list"
  ProductionMode :: bool


section \<open>The request resolver\<close>

text \<open>
  A cursor is \<open>(step, block, lib, head)\<close>. The four named steps are the spec's; \<open>StepOther n\<close>
  is a raw step value \<open>n\<close> that is none of them (\<^verbatim>\<open>bstream.StepType(0)\<close> in the test table
  is \<open>StepOther 0\<close>).
\<close>

datatype StepType = StepNew | StepUndo | StepIrreversible | StepNewIrreversible | StepOther nat

record BlockRef =
  ID :: string
  Num :: u64

record Cursor =
  Step :: StepType
  Block :: BlockRef
  LIB :: BlockRef
  HeadBlock :: BlockRef

text \<open>
  Modelled from the spec: \<^verbatim>\<open>resolveStartBlockNum\<close> is not among the sources (its test
  table \<^verbatim>\<open>Test_resolveStartBlockNum\<close> is). The spec: ``if \<^verbatim>\<open>StartCursor\<close> is empty, returns
  \<^verbatim>\<open>StartBlockNum\<close>. Otherwise decodes the cursor and returns'' the block number for
  Undo, the block number plus one for New, Irreversible and NewIrreversible, and fails
  with invalid-cursor for an unknown or zero step; an unparseable cursor is an
  invalid-argument error. The decoder of the opaque cursor string belongs to a library
  and is the parameter \<open>CursorFromOpaque\<close>.
\<close>

definition resolveStartBlockNum ::
  "(string \<Rightarrow> error + Cursor) \<Rightarrow> Request \<Rightarrow> error + u64" where
  "resolveStartBlockNum CursorFromOpaque req =
     (if StartCursor req = [] then Inr (StartBlockNum req)
      else
        case CursorFromOpaque (StartCursor req) of
          Inl err \<Rightarrow> Inl (StatusError InvalidArgument (''invalid start cursor: '' @ Error err))
        | Inr cursor \<Rightarrow>
            (case Step cursor of
               StepUndo \<Rightarrow> Inr (Num (Block cursor))
             | StepNew \<Rightarrow> Inr (Num (Block cursor) + 1)
             | StepIrreversible \<Rightarrow> Inr (Num (Block cursor) + 1)
             | StepNewIrreversible \<Rightarrow> Inr (Num (Block cursor) + 1)
             | StepOther n \<Rightarrow> Inl (StatusError InvalidArgument ''invalid start cursor step'')))"

text \<open>
  Modelled from the spec: \<^verbatim>\<open>computeLiveHandoffBlockNum\<close> is not among the sources (its
  test table \<^verbatim>\<open>Test_computeLiveHandoffBlockNum\<close> is, and calls it with a probe
  \<^verbatim>\<open>func() (uint64, error)\<close> and the stop block). The spec: if the live head is available,
  return it when \<^verbatim>\<open>stopBlockNum == 0\<close> and \<open>min(recentLiveHead, stopBlockNum)\<close> otherwise;
  with no live hub, fail when \<^verbatim>\<open>stopBlockNum == 0\<close> and return \<^verbatim>\<open>stopBlockNum\<close> otherwise.
  The live head is available when the probe returns no error.
\<close>

definition computeLiveHandoffBlockNum ::
  "(unit \<Rightarrow> error + u64) \<Rightarrow> u64 \<Rightarrow> error + u64" where
  "computeLiveHandoffBlockNum liveHeadProbe stopBlockNum =
     (case liveHeadProbe () of
        Inr recentLiveHead \<Rightarrow>
          if stopBlockNum = 0 then Inr recentLiveHead
          else Inr (min recentLiveHead stopBlockNum)
      | Inl err \<Rightarrow>
          if stopBlockNum = 0
          then Inl (Wrapf ''cannot determine a recent finalized block: '' err)
          else Inr stopBlockNum)"


section \<open>The orchestrator: \<^verbatim>\<open>orchestrator/strategy.go\<close>\<close>

text \<open>
  Of a \<^verbatim>\<open>state.Builder\<close>, \<^verbatim>\<open>NewLinearStrategy\<close> reads \<^verbatim>\<open>Name\<close> and \<^verbatim>\<open>ModuleStartBlock\<close> and
  calls \<^verbatim>\<open>Info(ctx)\<close>, which reads the object store and returns the builder's
  \<^verbatim>\<open>LastKVSavedBlock\<close> or an error: \<open>Info\<close> is a parameter of the model.
\<close>

record Builder =
  Name :: string
  ModuleStartBlock :: u64

record Info =
  LastKVSavedBlock :: u64

record LinearStrategy =
  requests :: "Request list"

text \<open>
  Modelled from the spec: \<^verbatim>\<open>createRequest\<close> is declared in another file of the package.
  The spec's work unit is \<open>(moduleName, [startBlock, endBlock))\<close>: the request of one
  output module from the start block to the stop block, with the fork steps, the
  irreversibility condition and the manifest of the client's request; the other fields
  keep Go's zero values.
\<close>

definition createRequest ::
  "u64 \<Rightarrow> u64 \<Rightarrow> string \<Rightarrow> ForkStep list \<Rightarrow> string \<Rightarrow> Manifest \<Rightarrow> Request" where
  "createRequest startBlock stopBlock outputModuleName forkSteps irreversibilityCondition manifest =
     \<lparr>StartBlockNum = startBlock, StartCursor = [], StopBlockNum = stopBlock,
      ForkSteps = forkSteps, IrreversibilityCondition = irreversibilityCondition,
      Manifest = manifest, OutputModules = [outputModuleName], ProductionMode = False\<rparr>"

text \<open>
  The loop of \<^verbatim>\<open>NewLinearStrategy\<close> over the builders, with \<^verbatim>\<open>res\<close> as it stands so far.
  A \<^verbatim>\<open>continue\<close> is the recursive call with \<^verbatim>\<open>res\<close> unchanged; an error of \<^verbatim>\<open>Info\<close> returns
  at once.
\<close>

fun planRequests ::
  "(Builder \<Rightarrow> error + Info) \<Rightarrow> Request \<Rightarrow> u64 \<Rightarrow> Builder list \<Rightarrow> LinearStrategy \<Rightarrow>
   error + LinearStrategy" where
  "planRequests Info request upToBlockNum [] res = Inr res"
| "planRequests Info request upToBlockNum (builder # builders) res =
     (if upToBlockNum = ModuleStartBlock builder
      then planRequests Info request upToBlockNum builders res
      else
        case Info builder of
          Inl err \<Rightarrow> Inl (Wrapf ''getting builder info: '' err)
        | Inr info \<Rightarrow>
            let endBlock = upToBlockNum;
                lastExclusiveEndBlock = LastKVSavedBlock info
            in
              if upToBlockNum \<le> lastExclusiveEndBlock
              then planRequests Info request upToBlockNum builders res
              else
                let reqStartBlock =
                      (if lastExclusiveEndBlock = 0 then ModuleStartBlock builder
                       else lastExclusiveEndBlock);
                    req = createRequest reqStartBlock endBlock (Name builder) (ForkSteps request)
                            (IrreversibilityCondition request) (Manifest request)
                in planRequests Info request upToBlockNum builders
                     (res\<lparr>requests := requests res @ [req]\<rparr>))"

definition NewLinearStrategy ::
  "(Builder \<Rightarrow> error + Info) \<Rightarrow> Request \<Rightarrow> Builder list \<Rightarrow> u64 \<Rightarrow> error + LinearStrategy" where
  "NewLinearStrategy Info request builders upToBlockNum =
     planRequests Info request upToBlockNum builders \<lparr>requests = []\<rparr>"

text \<open>
  \<^verbatim>\<open>GetNextRequest\<close> pops the last request of the list, or fails on an empty list.
\<close>

definition GetNextRequest :: "LinearStrategy \<Rightarrow> error + (Request \<times> LinearStrategy)" where
  "GetNextRequest s =
     (if length (requests s) = 0 then Inl (Errorf ''no requests to fetch'')
      else Inr (last (requests s), s\<lparr>requests := butlast (requests s)\<rparr>))"

text \<open>
  The number of blocks a request spans, \<open>[StartBlockNum, StopBlockNum)\<close>, and whether
  that is within a configured \<^verbatim>\<open>blockRangeSizeSubRequests\<close>.
\<close>

definition blockSpan :: "Request \<Rightarrow> nat" where
  "blockSpan req = unat (StopBlockNum req) - unat (StartBlockNum req)"

definition withinRangeSize :: "nat \<Rightarrow> Request \<Rightarrow> bool" where
  "withinRangeSize blockRangeSizeSubRequests req = (blockSpan req \<le> blockRangeSizeSubRequests)"


section \<open>The service: request validation and the gRPC error\<close>

text \<open>
  Of \<^verbatim>\<open>Service\<close>, the functions below read \<^verbatim>\<open>blockType\<close> and \<^verbatim>\<open>partialModeEnabled\<close>. Of the
  context they read the incoming gRPC metadata, a map from a key to its list of values,
  which a context may lack (\<^verbatim>\<open>metadata.FromIncomingContext\<close> then returns \<^verbatim>\<open>ok = false\<close>).
  \<^verbatim>\<open>md.Get(k)\<close> is the list of values under \<open>k\<close>, empty when the key is absent.
\<close>

record Service =
  blockType :: string
  partialModeEnabled :: bool

type_synonym MD = "string \<rightharpoonup> string list"

record Context =
  incomingMD :: "MD option"

definition FromIncomingContext :: "Context \<Rightarrow> MD option" where
  "FromIncomingContext ctx = incomingMD ctx"

definition MD_Get :: "MD \<Rightarrow> string \<Rightarrow> string list" where
  "MD_Get md k = (case md k of None \<Rightarrow> [] | Some vs \<Rightarrow> vs)"

text \<open>
  \<^verbatim>\<open>func (s *Service) isSubRequest(ctx context.Context) (bool, error)\<close>; the pair
  \<^verbatim>\<open>(false, err)\<close> is \<open>Inl err\<close>.
\<close>

definition isSubRequest :: "Service \<Rightarrow> Context \<Rightarrow> error + bool" where
  "isSubRequest s ctx =
     (case FromIncomingContext ctx of
        Some md \<Rightarrow>
          let partialMode = MD_Get md ''substreams-partial-mode'' in
          if length partialMode = 1 \<and> partialMode ! 0 = ''true'' then
            (if \<not> partialModeEnabled s
             then Inl (StatusError InvalidArgument
                         ''substreams-partial-mode not enabled on this instance'')
             else Inr True)
          else Inr False
      | None \<Rightarrow> Inr False)"

text \<open>
  \<^verbatim>\<open>func (s *Service) blocks(ctx, request, streamSrv) error\<close>, up to the call of
  \<^verbatim>\<open>isSubRequest\<close>. \<^verbatim>\<open>pipeline.NewModuleTree\<close> is not among the sources and is a
  parameter; so is everything \<^verbatim>\<open>blocks\<close> does after \<^verbatim>\<open>isSubRequest\<close> has returned (the
  parameter \<open>continue\<close>, given the flag and the module tree). \<open>None\<close> is Go's \<^verbatim>\<open>nil\<close> error.
\<close>

definition blocks ::
  "(Request \<Rightarrow> string \<Rightarrow> error + 't) \<Rightarrow> (bool \<Rightarrow> 't \<Rightarrow> error option) \<Rightarrow>
   Service \<Rightarrow> Context \<Rightarrow> Request \<Rightarrow> error option" where
  "blocks NewModuleTree continue s ctx request =
     (case NewModuleTree request (blockType s) of
        Inl err \<Rightarrow> Some (ErrInvalidArg (Error err))
      | Inr moduleTree \<Rightarrow>
          (case isSubRequest s ctx of
             Inl err \<Rightarrow> Some err
           | Inr sub \<Rightarrow> continue sub moduleTree))"

text \<open>
  \<^verbatim>\<open>func (s *Service) toGRPCError(err error) error\<close>: the four tests of its body, in the
  source's order.
\<close>

definition toGRPCError :: "error option \<Rightarrow> error option" where
  "toGRPCError e =
     (case e of
        None \<Rightarrow> None
      | Some err \<Rightarrow>
          if errors_Is err context_Canceled then Some (StatusError Canceled ''source canceled'')
          else if errors_Is err context_DeadlineExceeded
          then Some (StatusError DeadlineExceeded ''source deadline exceeded'')
          else
            (case errors_As_ErrInvalidArg err of
               Some errInvalidArg \<Rightarrow> Some (StatusError InvalidArgument (Error errInvalidArg))
             | None \<Rightarrow> Some (StatusError Internal (Error err))))"

text \<open>
  \<^verbatim>\<open>func (s *Service) Blocks(request, streamSrv) (grpcError error)\<close>: the error of
  \<^verbatim>\<open>blocks\<close> turned into the gRPC error the client receives (the span, the hostname
  header and the log line do not change it).
\<close>

definition Blocks ::
  "(Request \<Rightarrow> string \<Rightarrow> error + 't) \<Rightarrow> (bool \<Rightarrow> 't \<Rightarrow> error option) \<Rightarrow>
   Service \<Rightarrow> Context \<Rightarrow> Request \<Rightarrow> error option" where
  "Blocks NewModuleTree continue s ctx request =
     toGRPCError (blocks NewModuleTree continue s ctx request)"



section \<open>Instances of the parameters\<close>

text \<open>
  Concrete values for the parameters above, to run the definitions on explicit inputs:
  a \<^verbatim>\<open>bumpOrdinal\<close> that accepts every ordinal and leaves the store as it is, an \<^verbatim>\<open>Info\<close>
  that reports a given \<^verbatim>\<open>LastKVSavedBlock\<close> for every builder, a \<^verbatim>\<open>NewModuleTree\<close> that
  accepts every request, and a rest of \<^verbatim>\<open>blocks\<close> that ends with no error.
\<close>

definition acceptOrdinal :: "u64 \<Rightarrow> 'z Store_scheme \<Rightarrow> panic + 'z Store_scheme" where
  "acceptOrdinal ord s = Inr s"

definition savedUpTo :: "u64 \<Rightarrow> Builder \<Rightarrow> error + Info" where
  "savedUpTo n builder = Inr \<lparr>LastKVSavedBlock = n\<rparr>"

definition validModules :: "Request \<Rightarrow> string \<Rightarrow> error + Manifest" where
  "validModules request blockTypeName = Inr (Manifest request)"

definition runsToEnd :: "bool \<Rightarrow> Manifest \<Rightarrow> error option" where
  "runsToEnd sub moduleTree = None"


section \<open>The store: setting a value\<close>

text \<open>
  With a new value byte-equal to the key's current value, \<^verbatim>\<open>set\<close> runs the
  reserved-prefix check and \<^verbatim>\<open>bumpOrdinal\<close> and nothing else: it builds no delta, calls no
  \<^verbatim>\<open>ApplyDelta\<close> and appends nothing. \<^verbatim>\<open>bumpOrdinal\<close> is the ordinal bookkeeping of the
  store: where it returns, the key to value mapping and the delta list are those it was
  given.
\<close>

lemma set_equal_value_is_bumpOrdinal:
  assumes current: "GetLast s key = Some val"
    and bookkeeping: "\<And>s1. bumpOrdinal ord s = Inr s1 \<Longrightarrow> kv s1 = kv s \<and> Deltas s1 = Deltas s"
  shows "set_kv bumpOrdinal ord key val s =
           (if prefix ''__!__'' key
            then Inl (Panic ''key prefix __!__ is reserved for internal system use.'')
            else bumpOrdinal ord s)"
proof (cases "bumpOrdinal ord s")
  case (Inl p)
  then show ?thesis by (simp add: set_kv_def)
next
  case (Inr s1)
  with bookkeeping have "kv s1 = kv s" by blast
  with current have "GetLast s1 key = Some val" by (simp add: GetLast_def)
  with Inr show ?thesis by (simp add: set_kv_def)
qed

text \<open>
  C6. For every store, ordinal and key, a \<^verbatim>\<open>set\<close> (and so a \<^verbatim>\<open>Set\<close> or a \<^verbatim>\<open>SetBytes\<close>) whose
  new value is byte-equal to the key's current value is a no-op: it emits no delta and
  leaves the store's state unchanged. Whatever the key, the call is the reserved-prefix
  check followed by \<^verbatim>\<open>bumpOrdinal\<close>; and whenever it returns, the delta list and the key
  to value mapping of the store are those before the call, the key still bound to the
  same value. On a key with the reserved prefix the call panics at its first statement,
  before anything has touched the store. The store's state is the key to value mapping
  and the delta list of the data model; \<^verbatim>\<open>bumpOrdinal\<close>, declared in another file, is
  taken to leave both as they are.
\<close>

theorem set_equal_value_noop:
  assumes current: "GetLast s key = Some val"
    and bookkeeping: "\<And>s1. bumpOrdinal ord s = Inr s1 \<Longrightarrow> kv s1 = kv s \<and> Deltas s1 = Deltas s"
  shows "set_kv bumpOrdinal ord key val s =
           (if prefix ''__!__'' key
            then Inl (Panic ''key prefix __!__ is reserved for internal system use.'')
            else bumpOrdinal ord s) \<and>
         SetBytes bumpOrdinal ord key val s = set_kv bumpOrdinal ord key val s \<and>
         Set_string bumpOrdinal ord key val s = set_kv bumpOrdinal ord key val s \<and>
         (\<forall>s'. set_kv bumpOrdinal ord key val s = Inr s' \<longrightarrow>
                Deltas s' = Deltas s \<and> kv s' = kv s \<and> GetLast s' key = Some val)"
proof -
  note eq = set_equal_value_is_bumpOrdinal [of s key val bumpOrdinal ord, OF current bookkeeping]
  have frame: "Deltas s' = Deltas s \<and> kv s' = kv s \<and> GetLast s' key = Some val"
    if ret: "set_kv bumpOrdinal ord key val s = Inr s'" for s'
  proof -
    from ret eq have b: "bumpOrdinal ord s = Inr s'"
      by (cases "prefix ''__!__'' key") simp_all
    from bookkeeping [OF b] have k: "kv s' = kv s" and d: "Deltas s' = Deltas s"
      by blast+
    from current k have "GetLast s' key = Some val" by (simp add: GetLast_def)
    with k d show ?thesis by blast
  qed
  have wrappers: "SetBytes bumpOrdinal ord key val s = set_kv bumpOrdinal ord key val s"
    "Set_string bumpOrdinal ord key val s = set_kv bumpOrdinal ord key val s"
    by (simp_all add: SetBytes_def Set_string_def)
  from eq wrappers frame show ?thesis by blast
qed

text \<open>
  The theorem at a store that holds \<open>k \<mapsto> v\<close>, where the call returns the store as it was,
  and at a store that holds the reserved key \<^verbatim>\<open>__!__k\<close> with the value \<open>v\<close>, where the call
  panics and returns no store.
\<close>

theorem set_equal_value_noop_witness:
  "set_kv acceptOrdinal 3 ''k'' ''v'' \<lparr>kv = [''k'' \<mapsto> ''v''], Deltas = []\<rparr> =
     Inr \<lparr>kv = [''k'' \<mapsto> ''v''], Deltas = []\<rparr> \<and>
   set_kv acceptOrdinal 1 ''__!__k'' ''v'' \<lparr>kv = [''__!__k'' \<mapsto> ''v''], Deltas = []\<rparr> =
     Inl (Panic ''key prefix __!__ is reserved for internal system use.'')"
proof -
  have a: "GetLast \<lparr>kv = [''k'' \<mapsto> ''v''], Deltas = []\<rparr> ''k'' = Some ''v''"
    by (simp add: GetLast_def)
  have b: "GetLast \<lparr>kv = [''__!__k'' \<mapsto> ''v''], Deltas = []\<rparr> ''__!__k'' = Some ''v''"
    by (simp add: GetLast_def)
  have f: "acceptOrdinal n t = Inr t1 \<Longrightarrow> kv t1 = kv t \<and> Deltas t1 = Deltas t"
    for n and t t1 :: Store
    by (simp add: acceptOrdinal_def)
  from set_equal_value_noop [of "\<lparr>kv = [''k'' \<mapsto> ''v''], Deltas = []\<rparr>" "''k''" "''v''"
      acceptOrdinal 3, OF a f]
  have one: "set_kv acceptOrdinal 3 ''k'' ''v'' \<lparr>kv = [''k'' \<mapsto> ''v''], Deltas = []\<rparr> =
     Inr \<lparr>kv = [''k'' \<mapsto> ''v''], Deltas = []\<rparr>"
    by (simp add: acceptOrdinal_def)
  from set_equal_value_noop [of "\<lparr>kv = [''__!__k'' \<mapsto> ''v''], Deltas = []\<rparr>" "''__!__k''" "''v''"
      acceptOrdinal 1, OF b f]
  have two: "set_kv acceptOrdinal 1 ''__!__k'' ''v'' \<lparr>kv = [''__!__k'' \<mapsto> ''v''], Deltas = []\<rparr> =
     Inl (Panic ''key prefix __!__ is reserved for internal system use.'')"
    by simp
  from one two show ?thesis by blast
qed

text \<open>
  When the values differ, or the key is new, a \<^verbatim>\<open>set\<close> on a key without the reserved
  prefix does append a delta: the early return is the only path of such a call that
  leaves the delta list alone.
\<close>

lemma set_other_value_appends:
  assumes "\<not> prefix ''__!__'' key"
    and "bumpOrdinal ord s = Inr s1"
    and "GetLast s1 key \<noteq> Some val"
  shows "\<exists>s' delta. set_kv bumpOrdinal ord key val s = Inr s' \<and>
           Deltas s' = Deltas s1 @ [delta] \<and> Key delta = key \<and> NewValue delta = val \<and>
           Ordinal delta = ord \<and> GetLast s' key = Some val"
  using assms
  by (cases "GetLast s1 key") (auto simp: set_kv_def GetLast_def ApplyDelta_def Let_def)


section \<open>The store: setting a value if the key is new\<close>

text \<open>
  C9. \<^verbatim>\<open>setIfNotExists\<close> has no reserved-prefix check. For every key that starts with
  \<^verbatim>\<open>__!__\<close> and is not in the store, when \<^verbatim>\<open>bumpOrdinal\<close> accepts the ordinal,
  \<^verbatim>\<open>setIfNotExists\<close> and the public \<^verbatim>\<open>SetBytesIfNotExists\<close> and \<^verbatim>\<open>SetIfNotExists\<close> return
  normally; the store then holds the value under the key, every other key is as it was,
  and the delta list has grown by one \<^verbatim>\<open>CREATE\<close> delta of this ordinal, key and value,
  with no old value. On the same arguments \<^verbatim>\<open>set\<close> panics.
\<close>

theorem setIfNotExists_reserved_key_creates:
  assumes "prefix ''__!__'' key"
    and "bumpOrdinal ord s = Inr s1"
    and "GetLast s1 key = None"
  shows "\<exists>s'. setIfNotExists bumpOrdinal ord key val s = Inr s' \<and>
           SetBytesIfNotExists bumpOrdinal ord key val s = Inr s' \<and>
           SetIfNotExists bumpOrdinal ord key val s = Inr s' \<and>
           GetLast s' key = Some val \<and>
           Deltas s' = Deltas s1 @ [\<lparr>Operation = StoreDelta_CREATE, Ordinal = ord, Key = key,
                                      OldValue = [], NewValue = val\<rparr>] \<and>
           (\<forall>k. k \<noteq> key \<longrightarrow> GetLast s' k = GetLast s1 k) \<and>
           set_kv bumpOrdinal ord key val s =
             Inl (Panic ''key prefix __!__ is reserved for internal system use.'')"
  using assms
  by (simp add: setIfNotExists_def SetBytesIfNotExists_def SetIfNotExists_def set_kv_def
      GetLast_def ApplyDelta_def Let_def)

text \<open>The theorem at an empty store and the reserved key \<^verbatim>\<open>__!__hash\<close>.\<close>

theorem setIfNotExists_reserved_key_creates_witness:
  "\<exists>s'. setIfNotExists acceptOrdinal 7 ''__!__hash'' ''x'' \<lparr>kv = Map.empty, Deltas = []\<rparr> = Inr s' \<and>
        GetLast s' ''__!__hash'' = Some ''x'' \<and>
        Deltas s' = [\<lparr>Operation = StoreDelta_CREATE, Ordinal = 7, Key = ''__!__hash'',
                       OldValue = [], NewValue = ''x''\<rparr>]"
  using setIfNotExists_reserved_key_creates [where key = "''__!__hash''"
      and bumpOrdinal = acceptOrdinal and ord = 7
      and s = "\<lparr>kv = Map.empty, Deltas = []\<rparr>"
      and ?s1.0 = "\<lparr>kv = Map.empty, Deltas = []\<rparr>" and val = "''x''"]
  by (auto simp: GetLast_def acceptOrdinal_def)

text \<open>A key that is already in the store is left alone, reserved or not.\<close>

lemma setIfNotExists_existing_key:
  assumes "bumpOrdinal ord s = Inr s1"
    and "GetLast s1 key = Some old"
  shows "setIfNotExists bumpOrdinal ord key val s = Inr s1"
  using assms by (simp add: setIfNotExists_def)


section \<open>The orchestrator: the plan of a store\<close>

text \<open>
  The loop treats each builder on its own: the plan of a list of builders is the plan of
  the first followed by the plan of the rest, and an error of \<^verbatim>\<open>Info\<close> fails the whole
  plan.
\<close>

lemma planRequests_Cons:
  "planRequests Info request upTo (b # bs) acc =
     (case planRequests Info request upTo [b] acc of
        Inl e \<Rightarrow> Inl e
      | Inr acc' \<Rightarrow> planRequests Info request upTo bs acc')"
  by (simp add: Let_def split: sum.split)

lemma planRequests_single_acc:
  "planRequests Info request upTo [b] acc =
     (case planRequests Info request upTo [b] \<lparr>requests = []\<rparr> of
        Inl e \<Rightarrow> Inl e
      | Inr s \<Rightarrow> Inr \<lparr>requests = requests acc @ requests s\<rparr>)"
  by (simp add: Let_def split: sum.split)

lemma planRequests_acc:
  "planRequests Info request upTo bs acc =
     (case planRequests Info request upTo bs \<lparr>requests = []\<rparr> of
        Inl e \<Rightarrow> Inl e
      | Inr s \<Rightarrow> Inr \<lparr>requests = requests acc @ requests s\<rparr>)"
proof (induction bs arbitrary: acc)
  case Nil
  show ?case by simp
next
  case (Cons b bs)
  show ?case
  proof (cases "planRequests Info request upTo [b] \<lparr>requests = []\<rparr>")
    case (Inl e)
    then have "planRequests Info request upTo [b] acc = Inl e"
      by (subst planRequests_single_acc) simp
    with Inl show ?thesis
      by (simp only: planRequests_Cons [of _ _ _ b bs] sum.case)
  next
    case (Inr s1)
    then have one: "planRequests Info request upTo [b] acc =
        Inr \<lparr>requests = requests acc @ requests s1\<rparr>"
      by (subst planRequests_single_acc) simp
    have left: "planRequests Info request upTo (b # bs) acc =
        planRequests Info request upTo bs \<lparr>requests = requests acc @ requests s1\<rparr>"
      by (simp only: planRequests_Cons [of _ _ _ b bs] one sum.case)
    have right: "planRequests Info request upTo (b # bs) \<lparr>requests = []\<rparr> =
        planRequests Info request upTo bs s1"
      by (simp only: planRequests_Cons [of _ _ _ b bs] Inr sum.case)
    show ?thesis
      unfolding left right
      by (subst Cons.IH, subst (2) Cons.IH) (simp split: sum.split)
  qed
qed

lemma NewLinearStrategy_Cons:
  "NewLinearStrategy Info request (b # bs) upTo =
     (case NewLinearStrategy Info request [b] upTo of
        Inl e \<Rightarrow> Inl e
      | Inr s1 \<Rightarrow>
          (case NewLinearStrategy Info request bs upTo of
             Inl e \<Rightarrow> Inl e
           | Inr s2 \<Rightarrow> Inr \<lparr>requests = requests s1 @ requests s2\<rparr>))"
proof (cases "planRequests Info request upTo [b] \<lparr>requests = []\<rparr>")
  case (Inl e)
  then show ?thesis
    by (simp only: NewLinearStrategy_def planRequests_Cons [of _ _ _ b bs] sum.case)
next
  case (Inr s1)
  have "planRequests Info request upTo (b # bs) \<lparr>requests = []\<rparr> =
      planRequests Info request upTo bs s1"
    by (simp only: planRequests_Cons [of _ _ _ b bs] Inr sum.case)
  also have "\<dots> = (case planRequests Info request upTo bs \<lparr>requests = []\<rparr> of
        Inl e \<Rightarrow> Inl e
      | Inr s2 \<Rightarrow> Inr \<lparr>requests = requests s1 @ requests s2\<rparr>)"
    by (rule planRequests_acc)
  finally show ?thesis
    by (simp only: NewLinearStrategy_def Inr sum.case)
qed

lemma NewLinearStrategy_Nil: "NewLinearStrategy Info request [] upTo = Inr \<lparr>requests = []\<rparr>"
  by (simp add: NewLinearStrategy_def)

text \<open>
  So the requests of a plan that succeeds are the requests of each store's own plan, in
  the order of the builders.
\<close>

lemma NewLinearStrategy_requests:
  "NewLinearStrategy Info request bs upTo = Inr res \<Longrightarrow>
   requests res =
     concat (map (\<lambda>b. case NewLinearStrategy Info request [b] upTo of
                          Inl e \<Rightarrow> []
                        | Inr s \<Rightarrow> requests s) bs)"
proof (induction bs arbitrary: res)
  case Nil
  then show ?case by (auto simp: NewLinearStrategy_Nil)
next
  case (Cons b bs)
  from Cons.prems obtain s1 s2 where
    one: "NewLinearStrategy Info request [b] upTo = Inr s1" and
    rest: "NewLinearStrategy Info request bs upTo = Inr s2" and
    res: "res = \<lparr>requests = requests s1 @ requests s2\<rparr>"
    by (subst (asm) NewLinearStrategy_Cons) (auto split: sum.splits)
  from Cons.IH [OF rest] one res show ?case by simp
qed

text \<open>
  C3, as the code has it. For a store planned against the handoff block \<open>upTo\<close>: if the
  handoff equals the module's start block no work unit is produced (and \<^verbatim>\<open>Info\<close> is not
  consulted); if the last persisted exclusive end block is at or beyond the handoff no
  work unit is produced; otherwise exactly one work unit is produced, for the store's
  module, ending at the handoff and starting at \<^verbatim>\<open>LastKVSavedBlock\<close> when that is not
  zero and at the module's start block when it is zero. This start is
  \<open>max(lastKVSavedBlock, module.startBlock)\<close> whenever \<^verbatim>\<open>LastKVSavedBlock\<close> is zero or at
  least the module's start block. Nothing bounds the unit's span:
  \<^verbatim>\<open>NewLinearStrategy\<close> has no range size among its arguments.
\<close>

theorem linear_strategy_single_unit:
  "(upTo = ModuleStartBlock b \<longrightarrow>
      NewLinearStrategy Info request [b] upTo = Inr \<lparr>requests = []\<rparr>) \<and>
   (upTo \<noteq> ModuleStartBlock b \<and> Info b = Inr i \<and> upTo \<le> LastKVSavedBlock i \<longrightarrow>
      NewLinearStrategy Info request [b] upTo = Inr \<lparr>requests = []\<rparr>) \<and>
   (upTo \<noteq> ModuleStartBlock b \<and> Info b = Inr i \<and> LastKVSavedBlock i < upTo \<longrightarrow>
      (\<exists>req. NewLinearStrategy Info request [b] upTo = Inr \<lparr>requests = [req]\<rparr> \<and>
         OutputModules req = [Name b] \<and>
         StopBlockNum req = upTo \<and>
         StartBlockNum req =
           (if LastKVSavedBlock i = 0 then ModuleStartBlock b else LastKVSavedBlock i) \<and>
         (LastKVSavedBlock i = 0 \<or> ModuleStartBlock b \<le> LastKVSavedBlock i \<longrightarrow>
            StartBlockNum req = max (LastKVSavedBlock i) (ModuleStartBlock b))))"
  by (auto simp: NewLinearStrategy_def createRequest_def Let_def max_def)

text \<open>
  The theorem at a store whose module starts at block 10, planned against the handoff
  block 100 with 40 blocks persisted (one unit, from 40 to 100) and with 100 blocks
  persisted (no unit), and against the handoff block 10 with an \<^verbatim>\<open>Info\<close> that would fail
  (no unit, no error).
\<close>

theorem linear_strategy_single_unit_witness:
  "(\<exists>req. NewLinearStrategy (savedUpTo 40)
            \<lparr>StartBlockNum = 0, StartCursor = [], StopBlockNum = 0, ForkSteps = [STEP_IRREVERSIBLE],
       IrreversibilityCondition = [], Manifest = Modules [''store_a''],
       OutputModules = [''store_a''], ProductionMode = True\<rparr>
            [\<lparr>Name = ''store_a'', ModuleStartBlock = 10\<rparr>] 100 = Inr \<lparr>requests = [req]\<rparr> \<and>
          OutputModules req = [''store_a''] \<and> StopBlockNum req = 100 \<and>
          StartBlockNum req = 40 \<and> StartBlockNum req = max 40 10) \<and>
   NewLinearStrategy (savedUpTo 100)
      \<lparr>StartBlockNum = 0, StartCursor = [], StopBlockNum = 0, ForkSteps = [STEP_IRREVERSIBLE],
       IrreversibilityCondition = [], Manifest = Modules [''store_a''],
       OutputModules = [''store_a''], ProductionMode = True\<rparr>
      [\<lparr>Name = ''store_a'', ModuleStartBlock = 10\<rparr>] 100 = Inr \<lparr>requests = []\<rparr> \<and>
   NewLinearStrategy (\<lambda>b. Inl (Errorf ''object store unreachable''))
      \<lparr>StartBlockNum = 0, StartCursor = [], StopBlockNum = 0, ForkSteps = [STEP_IRREVERSIBLE],
       IrreversibilityCondition = [], Manifest = Modules [''store_a''],
       OutputModules = [''store_a''], ProductionMode = True\<rparr>
      [\<lparr>Name = ''store_a'', ModuleStartBlock = 10\<rparr>] 10 = Inr \<lparr>requests = []\<rparr>"
  using
    linear_strategy_single_unit [where upTo = 100 and b = "\<lparr>Name = ''store_a'', ModuleStartBlock = 10\<rparr>"
      and Info = "savedUpTo 40" and i = "\<lparr>LastKVSavedBlock = 40\<rparr>"
      and request = "\<lparr>StartBlockNum = 0, StartCursor = [], StopBlockNum = 0, ForkSteps = [STEP_IRREVERSIBLE],
       IrreversibilityCondition = [], Manifest = Modules [''store_a''],
       OutputModules = [''store_a''], ProductionMode = True\<rparr>"]
    linear_strategy_single_unit [where upTo = 100 and b = "\<lparr>Name = ''store_a'', ModuleStartBlock = 10\<rparr>"
      and Info = "savedUpTo 100" and i = "\<lparr>LastKVSavedBlock = 100\<rparr>"
      and request = "\<lparr>StartBlockNum = 0, StartCursor = [], StopBlockNum = 0, ForkSteps = [STEP_IRREVERSIBLE],
       IrreversibilityCondition = [], Manifest = Modules [''store_a''],
       OutputModules = [''store_a''], ProductionMode = True\<rparr>"]
    linear_strategy_single_unit [where upTo = 10 and b = "\<lparr>Name = ''store_a'', ModuleStartBlock = 10\<rparr>"
      and Info = "\<lambda>b. Inl (Errorf ''object store unreachable'')" and i = "\<lparr>LastKVSavedBlock = 0\<rparr>"
      and request = "\<lparr>StartBlockNum = 0, StartCursor = [], StopBlockNum = 0, ForkSteps = [STEP_IRREVERSIBLE],
       IrreversibilityCondition = [], Manifest = Modules [''store_a''],
       OutputModules = [''store_a''], ProductionMode = True\<rparr>"]
  by (simp add: savedUpTo_def)

text \<open>
  C3 as stated, every work unit spanning no more than \<^verbatim>\<open>blockRangeSizeSubRequests\<close> blocks,
  fails: a store whose module starts at block 0, with nothing persisted, planned against
  the handoff block 1000, gets the single unit from 0 to 1000, which spans 1000 blocks
  and is not within a range size of 100.
\<close>

theorem linear_strategy_unit_exceeds_range_size:
  "NewLinearStrategy (savedUpTo 0)
      \<lparr>StartBlockNum = 0, StartCursor = [], StopBlockNum = 0, ForkSteps = [STEP_IRREVERSIBLE],
       IrreversibilityCondition = [], Manifest = Modules [''store_a''],
       OutputModules = [''store_a''], ProductionMode = True\<rparr>
      [\<lparr>Name = ''store_a'', ModuleStartBlock = 0\<rparr>] 1000 =
     Inr \<lparr>requests = [createRequest 0 1000 ''store_a'' [STEP_IRREVERSIBLE] [] (Modules [''store_a''])]\<rparr> \<and>
   blockSpan (createRequest 0 1000 ''store_a'' [STEP_IRREVERSIBLE] [] (Modules [''store_a''])) = 1000 \<and>
   \<not> withinRangeSize 100 (createRequest 0 1000 ''store_a'' [STEP_IRREVERSIBLE] [] (Modules [''store_a'']))"
  by (simp add: NewLinearStrategy_def createRequest_def blockSpan_def withinRangeSize_def
      savedUpTo_def)


section \<open>The request resolver: start block and handoff block\<close>

text \<open>
  C4. \<^verbatim>\<open>resolveStartBlockNum\<close> returns the request's \<^verbatim>\<open>StartBlockNum\<close> when \<^verbatim>\<open>StartCursor\<close>
  is empty. With a cursor that decodes, it returns the cursor's block number for the
  step Undo, the block number plus one for the steps New, Irreversible and
  NewIrreversible, and fails with an error for any other step.
\<close>

theorem resolveStartBlockNum_cases:
  "(StartCursor req = [] \<longrightarrow>
      resolveStartBlockNum CursorFromOpaque req = Inr (StartBlockNum req)) \<and>
   (StartCursor req \<noteq> [] \<and> CursorFromOpaque (StartCursor req) = Inr cursor \<longrightarrow>
      (Step cursor = StepUndo \<longrightarrow>
         resolveStartBlockNum CursorFromOpaque req = Inr (Num (Block cursor))) \<and>
      (Step cursor = StepNew \<or> Step cursor = StepIrreversible \<or> Step cursor = StepNewIrreversible \<longrightarrow>
         resolveStartBlockNum CursorFromOpaque req = Inr (Num (Block cursor) + 1)) \<and>
      ((\<exists>n. Step cursor = StepOther n) \<longrightarrow>
         (\<exists>err. resolveStartBlockNum CursorFromOpaque req = Inl err)))"
  by (auto simp: resolveStartBlockNum_def)

text \<open>
  The theorem at rows of \<^verbatim>\<open>Test_resolveStartBlockNum\<close>: start block 10 and a cursor at
  block 10 give 10 with no cursor, 10 for Undo, 11 for NewIrreversible and an error for
  the step 0.
\<close>

theorem resolveStartBlockNum_cases_witness:
  "resolveStartBlockNum (\<lambda>c. Inl (Errorf ''not a cursor''))
      \<lparr>StartBlockNum = 10, StartCursor = [], StopBlockNum = 0, ForkSteps = [],
       IrreversibilityCondition = [], Manifest = Modules [], OutputModules = [],
       ProductionMode = False\<rparr> = Inr 10 \<and>
   resolveStartBlockNum
      (\<lambda>c. Inr \<lparr>Step = StepUndo, Block = \<lparr>ID = ''10a'', Num = 10\<rparr>,
        LIB = \<lparr>ID = ''9a'', Num = 9\<rparr>, HeadBlock = \<lparr>ID = ''10a'', Num = 10\<rparr>\<rparr>)
      \<lparr>StartBlockNum = 10, StartCursor = ''opaque'', StopBlockNum = 0, ForkSteps = [],
       IrreversibilityCondition = [], Manifest = Modules [], OutputModules = [],
       ProductionMode = False\<rparr> = Inr 10 \<and>
   resolveStartBlockNum
      (\<lambda>c. Inr \<lparr>Step = StepNewIrreversible, Block = \<lparr>ID = ''10a'', Num = 10\<rparr>,
        LIB = \<lparr>ID = ''9a'', Num = 9\<rparr>, HeadBlock = \<lparr>ID = ''10a'', Num = 10\<rparr>\<rparr>)
      \<lparr>StartBlockNum = 10, StartCursor = ''opaque'', StopBlockNum = 0, ForkSteps = [],
       IrreversibilityCondition = [], Manifest = Modules [], OutputModules = [],
       ProductionMode = False\<rparr> = Inr 11 \<and>
   (\<exists>err. resolveStartBlockNum
      (\<lambda>c. Inr \<lparr>Step = StepOther 0, Block = \<lparr>ID = ''10a'', Num = 10\<rparr>,
        LIB = \<lparr>ID = ''9a'', Num = 9\<rparr>, HeadBlock = \<lparr>ID = ''10a'', Num = 10\<rparr>\<rparr>)
      \<lparr>StartBlockNum = 10, StartCursor = ''opaque'', StopBlockNum = 0, ForkSteps = [],
       IrreversibilityCondition = [], Manifest = Modules [], OutputModules = [],
       ProductionMode = False\<rparr> = Inl err)"
  using
    resolveStartBlockNum_cases [where CursorFromOpaque = "\<lambda>c. Inl (Errorf ''not a cursor'')"
      and req = "\<lparr>StartBlockNum = 10, StartCursor = [], StopBlockNum = 0, ForkSteps = [],
       IrreversibilityCondition = [], Manifest = Modules [], OutputModules = [],
       ProductionMode = False\<rparr>"]
    resolveStartBlockNum_cases [where
      CursorFromOpaque = "\<lambda>c. Inr \<lparr>Step = StepUndo, Block = \<lparr>ID = ''10a'', Num = 10\<rparr>,
        LIB = \<lparr>ID = ''9a'', Num = 9\<rparr>, HeadBlock = \<lparr>ID = ''10a'', Num = 10\<rparr>\<rparr>"
      and cursor = "\<lparr>Step = StepUndo, Block = \<lparr>ID = ''10a'', Num = 10\<rparr>,
        LIB = \<lparr>ID = ''9a'', Num = 9\<rparr>, HeadBlock = \<lparr>ID = ''10a'', Num = 10\<rparr>\<rparr>"
      and req = "\<lparr>StartBlockNum = 10, StartCursor = ''opaque'', StopBlockNum = 0, ForkSteps = [],
       IrreversibilityCondition = [], Manifest = Modules [], OutputModules = [],
       ProductionMode = False\<rparr>"]
    resolveStartBlockNum_cases [where
      CursorFromOpaque = "\<lambda>c. Inr \<lparr>Step = StepNewIrreversible, Block = \<lparr>ID = ''10a'', Num = 10\<rparr>,
        LIB = \<lparr>ID = ''9a'', Num = 9\<rparr>, HeadBlock = \<lparr>ID = ''10a'', Num = 10\<rparr>\<rparr>"
      and cursor = "\<lparr>Step = StepNewIrreversible, Block = \<lparr>ID = ''10a'', Num = 10\<rparr>,
        LIB = \<lparr>ID = ''9a'', Num = 9\<rparr>, HeadBlock = \<lparr>ID = ''10a'', Num = 10\<rparr>\<rparr>"
      and req = "\<lparr>StartBlockNum = 10, StartCursor = ''opaque'', StopBlockNum = 0, ForkSteps = [],
       IrreversibilityCondition = [], Manifest = Modules [], OutputModules = [],
       ProductionMode = False\<rparr>"]
    resolveStartBlockNum_cases [where
      CursorFromOpaque = "\<lambda>c. Inr \<lparr>Step = StepOther 0, Block = \<lparr>ID = ''10a'', Num = 10\<rparr>,
        LIB = \<lparr>ID = ''9a'', Num = 9\<rparr>, HeadBlock = \<lparr>ID = ''10a'', Num = 10\<rparr>\<rparr>"
      and cursor = "\<lparr>Step = StepOther 0, Block = \<lparr>ID = ''10a'', Num = 10\<rparr>,
        LIB = \<lparr>ID = ''9a'', Num = 9\<rparr>, HeadBlock = \<lparr>ID = ''10a'', Num = 10\<rparr>\<rparr>"
      and req = "\<lparr>StartBlockNum = 10, StartCursor = ''opaque'', StopBlockNum = 0, ForkSteps = [],
       IrreversibilityCondition = [], Manifest = Modules [], OutputModules = [],
       ProductionMode = False\<rparr>"]
  by simp

text \<open>A cursor that does not decode is an invalid-argument error.\<close>

lemma resolveStartBlockNum_unparseable:
  "StartCursor req \<noteq> [] \<Longrightarrow> CursorFromOpaque (StartCursor req) = Inl err \<Longrightarrow>
   \<exists>msg. resolveStartBlockNum CursorFromOpaque req = Inl (StatusError InvalidArgument msg)"
  by (simp add: resolveStartBlockNum_def)

text \<open>
  C5. \<^verbatim>\<open>computeLiveHandoffBlockNum\<close> returns the recent live head when the live head is
  available and the stop block is 0, the smaller of the live head and the stop block
  when the live head is available and the stop block is not 0, and the stop block when
  the live head is unavailable and the stop block is not 0. It fails with an error
  exactly when the live head is unavailable and the stop block is 0.
\<close>

theorem computeLiveHandoffBlockNum_cases:
  "(liveHeadProbe () = Inr recentLiveHead \<and> stopBlockNum = 0 \<longrightarrow>
      computeLiveHandoffBlockNum liveHeadProbe stopBlockNum = Inr recentLiveHead) \<and>
   (liveHeadProbe () = Inr recentLiveHead \<and> stopBlockNum \<noteq> 0 \<longrightarrow>
      computeLiveHandoffBlockNum liveHeadProbe stopBlockNum = Inr (min recentLiveHead stopBlockNum)) \<and>
   ((\<exists>err. liveHeadProbe () = Inl err) \<and> stopBlockNum \<noteq> 0 \<longrightarrow>
      computeLiveHandoffBlockNum liveHeadProbe stopBlockNum = Inr stopBlockNum) \<and>
   ((\<exists>e. computeLiveHandoffBlockNum liveHeadProbe stopBlockNum = Inl e) \<longleftrightarrow>
      (\<exists>err. liveHeadProbe () = Inl err) \<and> stopBlockNum = 0)"
  by (auto simp: computeLiveHandoffBlockNum_def split: sum.splits)

text \<open>The theorem at the five rows of \<^verbatim>\<open>Test_computeLiveHandoffBlockNum\<close>.\<close>

theorem computeLiveHandoffBlockNum_cases_witness:
  "computeLiveHandoffBlockNum (\<lambda>u. Inr 100) 0 = Inr 100 \<and>
   computeLiveHandoffBlockNum (\<lambda>u. Inr 100) 150 = Inr 100 \<and>
   computeLiveHandoffBlockNum (\<lambda>u. Inr 100) 50 = Inr 50 \<and>
   computeLiveHandoffBlockNum (\<lambda>u. Inl (Errorf ''live not available'')) 50 = Inr 50 \<and>
   (\<exists>e. computeLiveHandoffBlockNum (\<lambda>u. Inl (Errorf ''live not available'')) 0 = Inl e)"
  using
    computeLiveHandoffBlockNum_cases [where liveHeadProbe = "\<lambda>u. Inr 100" and recentLiveHead = 100
      and stopBlockNum = 0]
    computeLiveHandoffBlockNum_cases [where liveHeadProbe = "\<lambda>u. Inr 100" and recentLiveHead = 100
      and stopBlockNum = 150]
    computeLiveHandoffBlockNum_cases [where liveHeadProbe = "\<lambda>u. Inr 100" and recentLiveHead = 100
      and stopBlockNum = 50]
    computeLiveHandoffBlockNum_cases [where liveHeadProbe = "\<lambda>u. Inl (Errorf ''live not available'')"
      and stopBlockNum = 50]
    computeLiveHandoffBlockNum_cases [where liveHeadProbe = "\<lambda>u. Inl (Errorf ''live not available'')"
      and stopBlockNum = 0]
  by simp


section \<open>The service: sub-requests and the error the client receives\<close>

lemma length_one_nth: "(length xs = Suc 0 \<and> xs ! 0 = t) \<longleftrightarrow> xs = [t]"
  by (cases xs) auto

text \<open>
  What \<^verbatim>\<open>isSubRequest\<close> returns. With the single value \<^verbatim>\<open>true\<close> under the key
  \<^verbatim>\<open>substreams-partial-mode\<close>, it returns an invalid-argument status error on an instance
  without partial mode and \<^verbatim>\<open>true\<close> on an instance with it; with any other list of values
  under the key (none, another value, or more than one), or with no incoming metadata,
  it returns \<^verbatim>\<open>false\<close> and no error.
\<close>

lemma isSubRequest_cases:
  "(FromIncomingContext ctx = Some md \<and> MD_Get md ''substreams-partial-mode'' = [''true''] \<and>
      \<not> partialModeEnabled s \<longrightarrow>
      isSubRequest s ctx =
        Inl (StatusError InvalidArgument ''substreams-partial-mode not enabled on this instance'')) \<and>
   (FromIncomingContext ctx = Some md \<and> MD_Get md ''substreams-partial-mode'' = [''true''] \<and>
      partialModeEnabled s \<longrightarrow> isSubRequest s ctx = Inr True) \<and>
   (FromIncomingContext ctx = Some md \<and> MD_Get md ''substreams-partial-mode'' \<noteq> [''true''] \<longrightarrow>
      isSubRequest s ctx = Inr False) \<and>
   (FromIncomingContext ctx = None \<longrightarrow> isSubRequest s ctx = Inr False)"
  by (auto simp: isSubRequest_def Let_def length_one_nth)

text \<open>
  What \<^verbatim>\<open>toGRPCError\<close> makes of an error. A \<^verbatim>\<open>stream.ErrInvalidArg\<close> becomes the gRPC code
  \<^verbatim>\<open>InvalidArgument\<close>; a gRPC status error, whatever its code, matches none of the three
  tests and becomes the code \<^verbatim>\<open>Internal\<close>, with the printed status error as its
  message. The function's comment says such an error is returned as it is; its body has
  no branch that does so.
\<close>

lemma toGRPCError_ErrInvalidArg:
  "toGRPCError (Some (ErrInvalidArg msg)) = Some (StatusError InvalidArgument msg)"
  by (simp add: toGRPCError_def)

lemma toGRPCError_StatusError:
  "toGRPCError (Some (StatusError c msg)) = Some (StatusError Internal (Error (StatusError c msg)))"
  by (simp add: toGRPCError_def)

text \<open>
  The sibling path of \<^verbatim>\<open>blocks\<close>: a request whose modules do not validate is wrapped in
  \<^verbatim>\<open>stream.NewErrInvalidArg\<close> and reaches the client with the code \<^verbatim>\<open>InvalidArgument\<close>.
\<close>

lemma Blocks_invalid_modules:
  "NewModuleTree request (blockType s) = Inl err \<Longrightarrow>
   Blocks NewModuleTree continue s ctx request = Some (StatusError InvalidArgument (Error err))"
  by (simp add: Blocks_def blocks_def toGRPCError_def)

text \<open>
  The path of a sub-request on an instance without partial mode, for every request whose
  modules validate: \<^verbatim>\<open>blocks\<close> returns the invalid-argument status error of
  \<^verbatim>\<open>isSubRequest\<close> as it is, and \<^verbatim>\<open>Blocks\<close> hands the client the code \<^verbatim>\<open>Internal\<close>.
\<close>

lemma Blocks_partial_mode_not_enabled:
  assumes "NewModuleTree request (blockType s) = Inr tree"
    and "FromIncomingContext ctx = Some md"
    and "MD_Get md ''substreams-partial-mode'' = [''true'']"
    and "\<not> partialModeEnabled s"
  shows "blocks NewModuleTree continue s ctx request =
           Some (StatusError InvalidArgument ''substreams-partial-mode not enabled on this instance'')"
    and "Blocks NewModuleTree continue s ctx request =
           Some (StatusError Internal
             ''rpc error: code = InvalidArgument desc = substreams-partial-mode not enabled on this instance'')"
  using assms isSubRequest_cases [of ctx md s]
  by (simp_all add: Blocks_def blocks_def toGRPCError_def)

text \<open>
  C10, at a concrete request. The incoming metadata carries
  \<^verbatim>\<open>substreams-partial-mode: true\<close>, the instance has no partial mode, the modules
  validate. \<^verbatim>\<open>isSubRequest\<close> returns the invalid-argument status error, and the gRPC error
  that \<^verbatim>\<open>Blocks\<close> returns to the client has the code \<^verbatim>\<open>Internal\<close>, not \<^verbatim>\<open>InvalidArgument\<close>.
\<close>

theorem Blocks_partial_mode_rejection_is_Internal:
  "isSubRequest \<lparr>blockType = ''sf.ethereum.type.v2.Block'', partialModeEnabled = False\<rparr>
      \<lparr>incomingMD = Some [''substreams-partial-mode'' \<mapsto> [''true'']]\<rparr> =
     Inl (StatusError InvalidArgument ''substreams-partial-mode not enabled on this instance'') \<and>
   Blocks validModules runsToEnd
      \<lparr>blockType = ''sf.ethereum.type.v2.Block'', partialModeEnabled = False\<rparr>
      \<lparr>incomingMD = Some [''substreams-partial-mode'' \<mapsto> [''true'']]\<rparr>
      \<lparr>StartBlockNum = 10, StartCursor = [], StopBlockNum = 0, ForkSteps = [],
       IrreversibilityCondition = [], Manifest = Modules [''map_a''], OutputModules = [''map_a''],
       ProductionMode = False\<rparr> =
     Some (StatusError Internal
       ''rpc error: code = InvalidArgument desc = substreams-partial-mode not enabled on this instance'')"
  by (simp add: Blocks_def blocks_def toGRPCError_def isSubRequest_def FromIncomingContext_def
      MD_Get_def validModules_def)

end
